theory Spec2Isabelle
  imports Complex_Main
begin

text \<open>
  A shallow embedding of detray's coordinate frames (\<open>coordinate_base.hpp\<close>,
  \<open>cartesian2.hpp\<close>) and of its grid axes (\<open>axis.hpp\<close>). The scalar type of the
  sources is modelled by the reals. The functions of the first sections compute in exact
  arithmetic; where a claim is about the arithmetic of the program itself, the functions
  named \<open>binary64\<close> round every result as the floating-point type does.
\<close>

type_synonym scalar = real

section \<open>Double precision\<close>

text \<open>
  IEEE 754 binary64 with the default rounding: the exact result of an operation is replaced
  by the nearest number with a significand of 53 bits, ties to the even significand.
  The exponent range (overflow, subnormal numbers) and the sign of zero are not modelled.
  The functions of the mathematical library (\<open>sin\<close>, \<open>cos\<close>, \<open>acos\<close>, \<open>atan2\<close>) are taken
  as correctly rounded.
\<close>

definition round_to_even :: "real \<Rightarrow> int" where
  "round_to_even x =
     (let n = \<lfloor>x\<rfloor>; r = x - of_int n
      in if r < 1 / 2 then n else if 1 / 2 < r then n + 1 else if even n then n else n + 1)"

definition binary64 :: "real \<Rightarrow> scalar" where
  "binary64 x =
     (if x = 0 then 0
      else (let e = \<lfloor>log 2 \<bar>x\<bar>\<rfloor> - 52
            in of_int (round_to_even (x / 2 powr of_int e)) * 2 powr of_int e))"

text \<open>
  A quotient of scalars whose divisor is zero is an infinity or a NaN of the floating
  type; the reals have no such value, so the model returns it as an error.
\<close>

datatype error = DivisionByZero

definition divide_binary64 :: "scalar \<Rightarrow> scalar \<Rightarrow> error + scalar" where
  "divide_binary64 a b = (if b = 0 then Inl DivisionByZero else Inr (binary64 (a / b)))"

section \<open>Grid axes (core/include/grids/axis.hpp)\<close>

text \<open>
  Both axis structs hold the two bounds \<open>_min\<close> and \<open>_max\<close>; the number of bins
  \<open>kDIM\<close> is a template parameter of type \<open>unsigned int\<close> and is passed explicitly here.
\<close>

record closed_axis =
  closed_min :: scalar
  closed_max :: scalar

record circular_axis =
  circular_min :: scalar
  circular_max :: scalar

text \<open>
  \<open>static_cast<optional_index>(x)\<close> on a scalar. \<open>optional_index\<close> (\<open>utils/indexing.hpp\<close>,
  absent from the sources) is taken as the 32-bit \<open>int\<close>. The conversion discards the
  fractional part. For a value that is not finite, or whose integral part is outside the
  range of \<open>int\<close>, the conversion is undefined in C++; the conversion instruction of
  x86-64 then gives the least integer \<open>- 2 ^ 31\<close>, and so does the model.
\<close>

definition static_cast_optional_index :: "error + scalar \<Rightarrow> int" where
  "static_cast_optional_index x =
     (case x of
        Inl e \<Rightarrow> - (2 ^ 31)
      | Inr y \<Rightarrow>
          (let t = (if 0 \<le> y then \<lfloor>y\<rfloor> else \<lceil>y\<rceil>)
           in if - (2 ^ 31) \<le> t \<and> t < 2 ^ 31 then t else - (2 ^ 31)))"

text \<open>
  \<open>closed::bin\<close>. The quotient is computed in double precision, in the order of the source:
  \<open>(v - _min) / (_max - _min) * kDIM\<close>. The comparison \<open>ibin < kDIM\<close> is made only when
  \<open>ibin\<close> is not negative. The last alternative is \<open>kDIM - 1\<close> computed in \<open>unsigned int\<close>,
  hence modulo \<open>2 ^ 32\<close>.
\<close>

definition closed_bin :: "nat \<Rightarrow> closed_axis \<Rightarrow> scalar \<Rightarrow> nat" where
  "closed_bin kDIM ax v =
     (let ibin = static_cast_optional_index
                   (case divide_binary64 (binary64 (v - closed_min ax))
                           (binary64 (closed_max ax - closed_min ax)) of
                      Inl e \<Rightarrow> Inl e
                    | Inr q \<Rightarrow> Inr (binary64 (q * real kDIM)))
      in if 0 \<le> ibin \<and> ibin < int kDIM then nat ibin
         else if ibin < 0 then 0
         else nat ((int kDIM - 1) mod 2 ^ 32))"

text \<open>\<open>circular::range\<close> and \<open>circular::zone\<close>: the bodies are the constant returns of the source.\<close>

definition circular_range :: "nat \<Rightarrow> circular_axis \<Rightarrow> scalar \<Rightarrow> nat \<Rightarrow> nat \<times> nat" where
  "circular_range kDIM ax v nhood = (0, 0)"

definition circular_zone :: "nat \<Rightarrow> circular_axis \<Rightarrow> scalar \<Rightarrow> nat \<Rightarrow> nat list" where
  "circular_zone kDIM ax v nhood = []"


section \<open>Fixed-size matrices and vectors\<close>

text \<open>
  A \<open>matrix_type<ROWS, COLS>\<close> is a list of \<open>ROWS\<close> rows of \<open>COLS\<close> scalars; points and
  vectors (\<open>point2\<close>, \<open>point3\<close>, \<open>vector3\<close>) are lists of their components, read with
  the index operator as in the sources. The template arguments \<open>ROWS\<close> and \<open>COLS\<close> of the
  matrix operations are explicit arguments here. The operations themselves belong to the
  algebra plugin (\<open>matrix_actor\<close>, \<open>getter\<close>, \<open>vector\<close>), which is absent from the sources.
  Reading and writing entries and blocks does not depend on the type of the entries.
\<close>

type_synonym matrix = "scalar list list"
type_synonym point2 = "scalar list"
type_synonym point3 = "scalar list"
type_synonym vector3 = "scalar list"

text \<open>Modelled from the spec: \<open>matrix_actor().element(M, i, j)\<close> read, absent from the
  sources: the entry in row \<open>i\<close> and column \<open>j\<close>.\<close>

definition element :: "'a list list \<Rightarrow> nat \<Rightarrow> nat \<Rightarrow> 'a" where
  "element M i j = M ! i ! j"

text \<open>Modelled from the spec: \<open>matrix_actor().element(M, i, j) = v\<close>, absent from the
  sources: the matrix with the entry in row \<open>i\<close> and column \<open>j\<close> overwritten.\<close>

definition set_element :: "'a list list \<Rightarrow> nat \<Rightarrow> nat \<Rightarrow> 'a \<Rightarrow> 'a list list" where
  "set_element M i j v = M[i := (M ! i)[j := v]]"

text \<open>Modelled from the spec: \<open>matrix_actor().zero<ROWS, COLS>()\<close>, absent from the sources:
  the zero-initialised matrix.\<close>

definition zero_matrix :: "nat \<Rightarrow> nat \<Rightarrow> matrix" where
  "zero_matrix ROWS COLS = replicate ROWS (replicate COLS 0)"

text \<open>Modelled from the spec: \<open>matrix_actor().block<ROWS, COLS>(M, row, col)\<close>, absent from
  the sources: the sub-block of \<open>M\<close> whose top left entry is at \<open>(row, col)\<close>.\<close>

definition block :: "nat \<Rightarrow> nat \<Rightarrow> 'a list list \<Rightarrow> nat \<Rightarrow> nat \<Rightarrow> 'a list list" where
  "block ROWS COLS M row col =
     map (\<lambda>i. map (\<lambda>j. element M (row + i) (col + j)) [0..<COLS]) [0..<ROWS]"

text \<open>Modelled from the spec: \<open>matrix_actor().set_block(M, B, row, col)\<close>, absent from the
  sources: \<open>M\<close> with the \<open>ROWS x COLS\<close> matrix \<open>B\<close> written at offset \<open>(row, col)\<close>, entry
  by entry.\<close>

definition set_block ::
    "nat \<Rightarrow> nat \<Rightarrow> 'a list list \<Rightarrow> 'a list list \<Rightarrow> nat \<Rightarrow> nat \<Rightarrow> 'a list list" where
  "set_block ROWS COLS M B row col =
     fold (\<lambda>i M'. fold (\<lambda>j M''. set_element M'' (row + i) (col + j) (element B i j))
                     [0..<COLS] M')
          [0..<ROWS] M"

text \<open>Modelled from the spec: \<open>matrix_actor().transpose(M)\<close> of a \<open>ROWS x COLS\<close> matrix,
  absent from the sources.\<close>

definition transpose_matrix :: "nat \<Rightarrow> nat \<Rightarrow> matrix \<Rightarrow> matrix" where
  "transpose_matrix ROWS COLS M =
     map (\<lambda>j. map (\<lambda>i. element M i j) [0..<ROWS]) [0..<COLS]"

text \<open>Modelled from the spec: the product \<open>a * M\<close> of a scalar and a matrix, absent from
  the sources (\<open>(-1/dz) . n^T\<close> in the spec).\<close>

definition scale_matrix :: "scalar \<Rightarrow> matrix \<Rightarrow> matrix" where
  "scale_matrix a M = map (map ((*) a)) M"

text \<open>
  The quotient in exact arithmetic; a zero divisor is the error. The two functions of
  \<open>coordinate_base\<close> that divide return \<open>error + matrix\<close>.
\<close>

definition divide_scalar :: "scalar \<Rightarrow> scalar \<Rightarrow> error + scalar" where
  "divide_scalar a b = (if b = 0 then Inl DivisionByZero else Inr (a / b))"

text \<open>Modelled from the spec: \<open>atan2\<close>, the two-argument arctangent of the C library that
  the spec names for \<open>phi\<close>, absent from the sources; its values lie in \<open>(-pi, pi]\<close>.\<close>

definition atan2 :: "scalar \<Rightarrow> scalar \<Rightarrow> scalar" where
  "atan2 y x =
     (if 0 < x then arctan (y / x)
      else if x < 0 \<and> 0 \<le> y then arctan (y / x) + pi
      else if x < 0 then arctan (y / x) - pi
      else if 0 < y then pi / 2
      else if y < 0 then - (pi / 2)
      else 0)"

text \<open>Modelled from the spec: \<open>getter::phi\<close>, absent from the sources:
  \<open>phi = atan2(dir_y, dir_x)\<close>.\<close>

definition getter_phi :: "vector3 \<Rightarrow> scalar" where
  "getter_phi v = atan2 (v ! 1) (v ! 0)"

text \<open>Modelled from the spec: \<open>getter::theta\<close>, absent from the sources:
  \<open>theta = acos(dir_z)\<close> for a unit vector, the angle from the positive z axis.\<close>

definition getter_theta :: "vector3 \<Rightarrow> scalar" where
  "getter_theta v = arccos (v ! 2)"

text \<open>Modelled from the spec: \<open>vector::dot\<close>, absent from the sources, as
  \<open>free_to_path_correction\<close> calls it: the dot product \<open>n . direction\<close> of a \<open>3 x 1\<close> matrix
  and a \<open>vector3\<close>.\<close>

definition vector_dot :: "matrix \<Rightarrow> vector3 \<Rightarrow> scalar" where
  "vector_dot a v = element a 0 0 * v ! 0 + element a 1 0 * v ! 1 + element a 2 0 * v ! 2"

section \<open>Track parametrisation\<close>

text \<open>Modelled from the spec: the index constants of the bound track parameters
  (\<open>detray/definitions\<close>, absent from the sources), numbered as in the spec's data model:
  \<open>0: loc0, 1: loc1, 2: phi, 3: theta, 4: time, 5: qOverP\<close>.\<close>

abbreviation (input) e_bound_loc0 :: nat where "e_bound_loc0 \<equiv> 0"
abbreviation (input) e_bound_loc1 :: nat where "e_bound_loc1 \<equiv> 1"
abbreviation (input) e_bound_phi :: nat where "e_bound_phi \<equiv> 2"
abbreviation (input) e_bound_theta :: nat where "e_bound_theta \<equiv> 3"
abbreviation (input) e_bound_time :: nat where "e_bound_time \<equiv> 4"
abbreviation (input) e_bound_qoverp :: nat where "e_bound_qoverp \<equiv> 5"
abbreviation (input) e_bound_size :: nat where "e_bound_size \<equiv> 6"

text \<open>Modelled from the spec: the index constants of the free track parameters
  (\<open>detray/definitions\<close>, absent from the sources), numbered as in the spec's data model:
  \<open>0-2: position, 3: time, 4-6: direction, 7: qOverP\<close>.\<close>

abbreviation (input) e_free_pos0 :: nat where "e_free_pos0 \<equiv> 0"
abbreviation (input) e_free_pos1 :: nat where "e_free_pos1 \<equiv> 1"
abbreviation (input) e_free_pos2 :: nat where "e_free_pos2 \<equiv> 2"
abbreviation (input) e_free_time :: nat where "e_free_time \<equiv> 3"
abbreviation (input) e_free_dir0 :: nat where "e_free_dir0 \<equiv> 4"
abbreviation (input) e_free_dir1 :: nat where "e_free_dir1 \<equiv> 5"
abbreviation (input) e_free_dir2 :: nat where "e_free_dir2 \<equiv> 6"
abbreviation (input) e_free_qoverp :: nat where "e_free_qoverp \<equiv> 7"
abbreviation (input) e_free_size :: nat where "e_free_size \<equiv> 8"

text \<open>Modelled from the spec: \<open>track_helper().pos\<close>
  (\<open>detray/tracks/detail/track_helper.hpp\<close>, absent from the sources): the position rows
  of a vector of free parameters.\<close>

definition track_helper_pos :: "matrix \<Rightarrow> point3" where
  "track_helper_pos free_vec =
     [element free_vec e_free_pos0 0, element free_vec e_free_pos1 0,
      element free_vec e_free_pos2 0]"

text \<open>Modelled from the spec: \<open>track_helper().dir\<close> on a vector of free parameters
  (\<open>track_helper.hpp\<close>, absent from the sources): its direction rows.\<close>

definition track_helper_dir :: "matrix \<Rightarrow> vector3" where
  "track_helper_dir free_vec =
     [element free_vec e_free_dir0 0, element free_vec e_free_dir1 0,
      element free_vec e_free_dir2 0]"

text \<open>Modelled from the spec: \<open>track_helper().local\<close> (\<open>track_helper.hpp\<close>, absent from the
  sources): \<open>(loc0, loc1)\<close> of a bound vector.\<close>

definition track_helper_local :: "matrix \<Rightarrow> point2" where
  "track_helper_local bound_vec =
     [element bound_vec e_bound_loc0 0, element bound_vec e_bound_loc1 0]"

text \<open>Modelled from the spec: \<open>track_helper().dir\<close> on a bound vector (\<open>track_helper.hpp\<close>,
  absent from the sources): the direction rebuilt from the angles,
  \<open>dir = (sin theta cos phi, sin theta sin phi, cos theta)\<close>.\<close>

definition track_helper_dir_bound :: "matrix \<Rightarrow> vector3" where
  "track_helper_dir_bound bound_vec =
     (let phi = element bound_vec e_bound_phi 0;
          theta = element bound_vec e_bound_theta 0
      in [sin theta * cos phi, sin theta * sin phi, cos theta])"

section \<open>The surface transform\<close>

text \<open>Modelled from the spec: \<open>transform3\<close> of the algebra plugin, absent from the sources:
  a rotation (\<open>3 x 3\<close>) and a translation that map the local frame of a surface to the
  global frame.\<close>

record transform3 =
  rotation :: matrix
  translation :: vector3

text \<open>Modelled from the spec: the determinant of the rotation part of a \<open>transform3\<close>
  (absent from the sources); the affine map is invertible when it is not zero, and it
  is \<open>1\<close> for a rotation.\<close>

definition determinant3 :: "matrix \<Rightarrow> scalar" where
  "determinant3 M =
     element M 0 0 * (element M 1 1 * element M 2 2 - element M 1 2 * element M 2 1)
   - element M 0 1 * (element M 1 0 * element M 2 2 - element M 1 2 * element M 2 0)
   + element M 0 2 * (element M 1 0 * element M 2 1 - element M 1 1 * element M 2 0)"

text \<open>Modelled from the spec: the inverse of the rotation part of a \<open>transform3\<close> (absent
  from the sources), by cofactors; for a rotation it is the transpose.\<close>

definition inverse3 :: "matrix \<Rightarrow> matrix" where
  "inverse3 M =
     (let d = determinant3 M in
      [[(element M 1 1 * element M 2 2 - element M 1 2 * element M 2 1) / d,
        (element M 0 2 * element M 2 1 - element M 0 1 * element M 2 2) / d,
        (element M 0 1 * element M 1 2 - element M 0 2 * element M 1 1) / d],
       [(element M 1 2 * element M 2 0 - element M 1 0 * element M 2 2) / d,
        (element M 0 0 * element M 2 2 - element M 0 2 * element M 2 0) / d,
        (element M 0 2 * element M 1 0 - element M 0 0 * element M 1 2) / d],
       [(element M 1 0 * element M 2 1 - element M 1 1 * element M 2 0) / d,
        (element M 0 1 * element M 2 0 - element M 0 0 * element M 2 1) / d,
        (element M 0 0 * element M 1 1 - element M 0 1 * element M 1 0) / d]])"

text \<open>Modelled from the spec: the product of a \<open>3 x 3\<close> matrix and a \<open>vector3\<close>, by which a
  \<open>transform3\<close> (absent from the sources) carries points.\<close>

definition matrix_vector3 :: "matrix \<Rightarrow> vector3 \<Rightarrow> vector3" where
  "matrix_vector3 M v =
     map (\<lambda>i. element M i 0 * v ! 0 + element M i 1 * v ! 1 + element M i 2 * v ! 2) [0..<3]"

text \<open>Modelled from the spec: \<open>transform3::point_to_global\<close>, absent from the sources: the
  transform carries a point of the local frame to the global frame, rotation then
  translation.\<close>

definition point_to_global :: "transform3 \<Rightarrow> point3 \<Rightarrow> point3" where
  "point_to_global trf3 p =
     (let q = matrix_vector3 (rotation trf3) p; t = translation trf3
      in [q ! 0 + t ! 0, q ! 1 + t ! 1, q ! 2 + t ! 2])"

text \<open>Modelled from the spec: \<open>transform3::point_to_local\<close>, absent from the sources: the
  inverse affine map, which carries a global point into the local frame of the
  surface.\<close>

definition point_to_local :: "transform3 \<Rightarrow> point3 \<Rightarrow> point3" where
  "point_to_local trf3 p =
     (let t = translation trf3
      in matrix_vector3 (inverse3 (rotation trf3)) [p ! 0 - t ! 0, p ! 1 - t ! 1, p ! 2 - t ! 2])"

text \<open>Modelled from the spec: the determinant of the rotation part of a \<open>transform3\<close>
  (absent from the sources), with every product, difference and sum rounded.\<close>

definition determinant3_binary64 :: "matrix \<Rightarrow> scalar" where
  "determinant3_binary64 M =
     binary64
       (binary64
          (binary64 (element M 0 0
                     * binary64 (binary64 (element M 1 1 * element M 2 2)
                                 - binary64 (element M 1 2 * element M 2 1)))
           - binary64 (element M 0 1
                       * binary64 (binary64 (element M 1 0 * element M 2 2)
                                   - binary64 (element M 1 2 * element M 2 0))))
        + binary64 (element M 0 2
                    * binary64 (binary64 (element M 1 0 * element M 2 1)
                                - binary64 (element M 1 1 * element M 2 0))))"

text \<open>Modelled from the spec: one entry of the inverse of the rotation part of a
  \<open>transform3\<close> (absent from the sources) in double precision: the cofactor
  \<open>a * b - c * d\<close> over the determinant \<open>det\<close>, every operation rounded.\<close>

definition cofactor_binary64 :: "scalar \<Rightarrow> scalar \<Rightarrow> scalar \<Rightarrow> scalar \<Rightarrow> scalar \<Rightarrow> scalar" where
  "cofactor_binary64 a b c d det =
     binary64 (binary64 (binary64 (a * b) - binary64 (c * d)) / det)"

text \<open>Modelled from the spec: the inverse of the rotation part of a \<open>transform3\<close> (absent
  from the sources) in double precision, entry by entry as \<open>inverse3\<close>.\<close>

definition inverse3_binary64 :: "matrix \<Rightarrow> matrix" where
  "inverse3_binary64 M =
     (let d = determinant3_binary64 M in
      [[cofactor_binary64 (element M 1 1) (element M 2 2) (element M 1 2) (element M 2 1) d,
        cofactor_binary64 (element M 0 2) (element M 2 1) (element M 0 1) (element M 2 2) d,
        cofactor_binary64 (element M 0 1) (element M 1 2) (element M 0 2) (element M 1 1) d],
       [cofactor_binary64 (element M 1 2) (element M 2 0) (element M 1 0) (element M 2 2) d,
        cofactor_binary64 (element M 0 0) (element M 2 2) (element M 0 2) (element M 2 0) d,
        cofactor_binary64 (element M 0 2) (element M 1 0) (element M 0 0) (element M 1 2) d],
       [cofactor_binary64 (element M 1 0) (element M 2 1) (element M 1 1) (element M 2 0) d,
        cofactor_binary64 (element M 0 1) (element M 2 0) (element M 0 0) (element M 2 1) d,
        cofactor_binary64 (element M 0 0) (element M 1 1) (element M 0 1) (element M 1 0) d]])"

text \<open>Modelled from the spec: the product of a \<open>3 x 3\<close> matrix and a \<open>vector3\<close> of a
  \<open>transform3\<close> (absent from the sources) in double precision: three rounded products,
  added from left to right with rounding.\<close>

definition matrix_vector3_binary64 :: "matrix \<Rightarrow> vector3 \<Rightarrow> vector3" where
  "matrix_vector3_binary64 M v =
     map (\<lambda>i. binary64 (binary64 (binary64 (element M i 0 * v ! 0)
                                    + binary64 (element M i 1 * v ! 1))
                          + binary64 (element M i 2 * v ! 2))) [0..<3]"

text \<open>Modelled from the spec: \<open>transform3::point_to_global\<close>, absent from the sources, in
  double precision: rotation then translation, every operation rounded.\<close>

definition point_to_global_binary64 :: "transform3 \<Rightarrow> point3 \<Rightarrow> point3" where
  "point_to_global_binary64 trf3 p =
     (let q = matrix_vector3_binary64 (rotation trf3) p; t = translation trf3
      in [binary64 (q ! 0 + t ! 0), binary64 (q ! 1 + t ! 1), binary64 (q ! 2 + t ! 2)])"

text \<open>Modelled from the spec: \<open>transform3::point_to_local\<close>, absent from the sources, in
  double precision: the inverse affine map, every operation rounded.\<close>

definition point_to_local_binary64 :: "transform3 \<Rightarrow> point3 \<Rightarrow> point3" where
  "point_to_local_binary64 trf3 p =
     (let t = translation trf3
      in matrix_vector3_binary64 (inverse3_binary64 (rotation trf3))
           [binary64 (p ! 0 - t ! 0), binary64 (p ! 1 - t ! 1), binary64 (p ! 2 - t ! 2)])"

text \<open>
  The placement of the spec's concrete scenario: identity rotation, translation at the
  origin.
\<close>

definition identity_transform3 :: transform3 where
  "identity_transform3 =
     \<lparr>rotation = [[1, 0, 0], [0, 1, 0], [0, 0, 1]], translation = [0, 0, 0]\<rparr>"

section \<open>The planar frame (detray/coordinates/cartesian2.hpp)\<close>

text \<open>
  The two call operators of \<open>cartesian2\<close> (from a 2D and from a 3D local point), then its
  member functions. The mask (shape descriptor) is of any type and is never read.
\<close>

definition cartesian2_of_point2 :: "point2 \<Rightarrow> point2" where
  "cartesian2_of_point2 local2 = [local2 ! 0, local2 ! 1]"

definition cartesian2_of_point3 :: "point3 \<Rightarrow> point2" where
  "cartesian2_of_point3 local3 = [local3 ! 0, local3 ! 1]"

definition global_to_local :: "transform3 \<Rightarrow> point3 \<Rightarrow> vector3 \<Rightarrow> point2" where
  "global_to_local trf3 p d = (let local3 = point_to_local trf3 p in cartesian2_of_point3 local3)"

definition local_to_global :: "transform3 \<Rightarrow> 'mask \<Rightarrow> point2 \<Rightarrow> vector3 \<Rightarrow> point3" where
  "local_to_global trf3 msk p d = point_to_global trf3 [p ! 0, p ! 1, 0]"

definition reference_frame :: "transform3 \<Rightarrow> 'mask \<Rightarrow> point3 \<Rightarrow> vector3 \<Rightarrow> matrix" where
  "reference_frame trf3 msk pos dir = rotation trf3"

definition bound_pos_to_free_pos_derivative ::
    "transform3 \<Rightarrow> 'mask \<Rightarrow> point3 \<Rightarrow> vector3 \<Rightarrow> matrix" where
  "bound_pos_to_free_pos_derivative trf3 msk pos dir =
     (let frame = reference_frame trf3 msk pos dir in block 3 2 frame 0 0)"

definition free_pos_to_bound_pos_derivative ::
    "transform3 \<Rightarrow> 'mask \<Rightarrow> point3 \<Rightarrow> vector3 \<Rightarrow> matrix" where
  "free_pos_to_bound_pos_derivative trf3 msk pos dir =
     (let frame = reference_frame trf3 msk pos dir;
          frameT = transpose_matrix 3 3 frame
      in block 2 3 frameT 0 0)"

text \<open>
  \<open>global_to_local\<close> and \<open>local_to_global\<close> in double precision: the same bodies, on the
  rounded operations of the transform.
\<close>

definition global_to_local_binary64 :: "transform3 \<Rightarrow> point3 \<Rightarrow> vector3 \<Rightarrow> point2" where
  "global_to_local_binary64 trf3 p d =
     (let local3 = point_to_local_binary64 trf3 p in cartesian2_of_point3 local3)"

definition local_to_global_binary64 ::
    "transform3 \<Rightarrow> 'mask \<Rightarrow> point2 \<Rightarrow> vector3 \<Rightarrow> point3" where
  "local_to_global_binary64 trf3 msk p d = point_to_global_binary64 trf3 [p ! 0, p ! 1, 0]"

section \<open>Bound and free track parameters (detray/coordinates/coordinate_base.hpp)\<close>

text \<open>
  The member functions of \<open>coordinate_base<cartesian2, transform3_t>\<close>: each call through
  \<open>Derived<transform3_t>()\<close> is a call of the planar frame above. A vector declared
  without initialiser and then written entry by entry starts from the zero matrix here;
  every entry of it is overwritten.
\<close>

definition free_to_bound_vector :: "transform3 \<Rightarrow> matrix \<Rightarrow> matrix" where
  "free_to_bound_vector trf3 free_vec =
     (let pos = track_helper_pos free_vec;
          dir = track_helper_dir free_vec;
          local = global_to_local trf3 pos dir;
          v0 = zero_matrix e_bound_size 1;
          v1 = set_element v0 e_bound_loc0 0 (local ! 0);
          v2 = set_element v1 e_bound_loc1 0 (local ! 1);
          v3 = set_element v2 e_bound_phi 0 (getter_phi dir);
          v4 = set_element v3 e_bound_theta 0 (getter_theta dir);
          v5 = set_element v4 e_bound_time 0 (element free_vec e_free_time 0);
          v6 = set_element v5 e_bound_qoverp 0 (element free_vec e_free_qoverp 0)
      in v6)"

definition bound_to_free_vector :: "transform3 \<Rightarrow> 'mask \<Rightarrow> matrix \<Rightarrow> matrix" where
  "bound_to_free_vector trf3 msk bound_vec =
     (let local = track_helper_local bound_vec;
          dir = track_helper_dir_bound bound_vec;
          pos = local_to_global trf3 msk local dir;
          v0 = zero_matrix e_free_size 1;
          v1 = set_element v0 e_free_pos0 0 (pos ! 0);
          v2 = set_element v1 e_free_pos1 0 (pos ! 1);
          v3 = set_element v2 e_free_pos2 0 (pos ! 2);
          v4 = set_element v3 e_free_time 0 (element bound_vec e_bound_time 0);
          v5 = set_element v4 e_free_dir0 0 (dir ! 0);
          v6 = set_element v5 e_free_dir1 0 (dir ! 1);
          v7 = set_element v6 e_free_dir2 0 (dir ! 2);
          v8 = set_element v7 e_free_qoverp 0 (element bound_vec e_bound_qoverp 0)
      in v8)"

text \<open>
  \<open>bound_to_free_jacobian\<close> passes \<open>track_helper().pos(bound_vec)\<close> to the frame: the rows
  \<open>e_free_pos0 .. e_free_pos2\<close> of the bound vector. The planar frame does not read it.
  \<open>free_to_bound_jacobian\<close> and \<open>free_to_path_correction\<close> divide; each division is a
  \<open>divide_scalar\<close>, in the order of the source.
\<close>

definition bound_to_free_jacobian :: "transform3 \<Rightarrow> 'mask \<Rightarrow> matrix \<Rightarrow> matrix" where
  "bound_to_free_jacobian trf3 msk bound_vec =
     (let j0 = zero_matrix e_free_size e_bound_size;
          theta = element bound_vec e_bound_theta 0;
          phi = element bound_vec e_bound_phi 0;
          cos_theta = cos theta;
          sin_theta = sin theta;
          cos_phi = cos phi;
          sin_phi = sin phi;
          pos = track_helper_pos bound_vec;
          dir = track_helper_dir_bound bound_vec;
          derivative = bound_pos_to_free_pos_derivative trf3 msk pos dir;
          j1 = set_block 3 2 j0 derivative e_free_pos0 e_bound_loc0;
          j2 = set_element j1 e_free_time e_bound_time 1;
          j3 = set_element j2 e_free_dir0 e_bound_phi (- 1 * sin_theta * sin_phi);
          j4 = set_element j3 e_free_dir0 e_bound_theta (cos_theta * cos_phi);
          j5 = set_element j4 e_free_dir1 e_bound_phi (sin_theta * cos_phi);
          j6 = set_element j5 e_free_dir1 e_bound_theta (cos_theta * sin_phi);
          j7 = set_element j6 e_free_dir2 e_bound_theta (- 1 * sin_theta);
          j8 = set_element j7 e_free_qoverp e_bound_qoverp 1
      in j8)"

definition free_to_bound_jacobian :: "transform3 \<Rightarrow> 'mask \<Rightarrow> matrix \<Rightarrow> error + matrix" where
  "free_to_bound_jacobian trf3 msk free_vec =
     (let j0 = zero_matrix e_bound_size e_free_size;
          pos = track_helper_pos free_vec;
          dir = track_helper_dir free_vec;
          theta = getter_theta dir;
          phi = getter_phi dir;
          cos_theta = cos theta;
          sin_theta = sin theta;
          cos_phi = cos phi;
          sin_phi = sin phi;
          derivative = free_pos_to_bound_pos_derivative trf3 msk pos dir;
          j1 = set_block 2 3 j0 derivative e_bound_loc0 e_free_pos0;
          j2 = set_element j1 e_bound_time e_free_time 1
      in case divide_scalar (- 1 * sin_phi) sin_theta of
           Inl e \<Rightarrow> Inl e
         | Inr q0 \<Rightarrow>
             (let j3 = set_element j2 e_bound_phi e_free_dir0 q0
              in case divide_scalar cos_phi sin_theta of
                   Inl e \<Rightarrow> Inl e
                 | Inr q1 \<Rightarrow>
                     (let j4 = set_element j3 e_bound_phi e_free_dir1 q1;
                          j5 = set_element j4 e_bound_theta e_free_dir0 (cos_phi * cos_theta);
                          j6 = set_element j5 e_bound_theta e_free_dir1 (sin_phi * cos_theta);
                          j7 = set_element j6 e_bound_theta e_free_dir2 (- 1 * sin_theta);
                          j8 = set_element j7 e_bound_qoverp e_free_qoverp 1
                      in Inr j8)))"

definition free_to_path_correction :: "transform3 \<Rightarrow> 'mask \<Rightarrow> matrix \<Rightarrow> error + matrix" where
  "free_to_path_correction trf3 msk free_vec =
     (let free_to_path = zero_matrix 1 e_free_size;
          pos = track_helper_pos free_vec;
          dir = track_helper_dir free_vec;
          frame = reference_frame trf3 msk pos dir;
          ref_z_axis = block 3 1 frame 0 2;
          dz = vector_dot ref_z_axis dir
      in case divide_scalar (- 1) dz of
           Inl e \<Rightarrow> Inl e
         | Inr q \<Rightarrow>
             (let correction_term = scale_matrix q (transpose_matrix 3 1 ref_z_axis)
              in Inr (set_block 1 3 free_to_path correction_term 0 e_free_pos0)))"

text \<open>
  \<open>free_to_bound_jacobian\<close> in double precision. An entry of the matrix is a finite
  scalar (\<open>Inr\<close>) or the outcome of a division by zero (\<open>Inl DivisionByZero\<close>); each of
  the two quotients is written to its own entry, as in the source, and nothing else is
  written there afterwards. The angles and their sines and cosines are rounded results
  of the library functions.
\<close>

definition free_to_bound_jacobian_binary64 ::
    "transform3 \<Rightarrow> 'mask \<Rightarrow> matrix \<Rightarrow> (error + scalar) list list" where
  "free_to_bound_jacobian_binary64 trf3 msk free_vec =
     (let j0 = replicate e_bound_size (replicate e_free_size (Inr 0));
          pos = track_helper_pos free_vec;
          dir = track_helper_dir free_vec;
          theta = binary64 (getter_theta dir);
          phi = binary64 (getter_phi dir);
          cos_theta = binary64 (cos theta);
          sin_theta = binary64 (sin theta);
          cos_phi = binary64 (cos phi);
          sin_phi = binary64 (sin phi);
          derivative = free_pos_to_bound_pos_derivative trf3 msk pos dir;
          j1 = set_block 2 3 j0 (map (map Inr) derivative) e_bound_loc0 e_free_pos0;
          j2 = set_element j1 e_bound_time e_free_time (Inr 1);
          j3 = set_element j2 e_bound_phi e_free_dir0
                 (divide_binary64 (binary64 (- 1 * sin_phi)) sin_theta);
          j4 = set_element j3 e_bound_phi e_free_dir1 (divide_binary64 cos_phi sin_theta);
          j5 = set_element j4 e_bound_theta e_free_dir0 (Inr (binary64 (cos_phi * cos_theta)));
          j6 = set_element j5 e_bound_theta e_free_dir1 (Inr (binary64 (sin_phi * cos_theta)));
          j7 = set_element j6 e_bound_theta e_free_dir2 (Inr (binary64 (- 1 * sin_theta)));
          j8 = set_element j7 e_bound_qoverp e_free_qoverp (Inr 1)
      in j8)"

section \<open>Auxiliary facts\<close>

lemmas matrix_defs =
  element_def set_element_def zero_matrix_def block_def set_block_def
  transpose_matrix_def scale_matrix_def

subsection \<open>Rounding to double precision\<close>

lemma round_to_even_cases:
  "round_to_even x = \<lfloor>x\<rfloor> \<or> round_to_even x = \<lfloor>x\<rfloor> + 1"
  by (simp add: round_to_even_def Let_def)

lemma round_to_even_nonzero:
  assumes "1 \<le> \<bar>x\<bar>"
  shows "round_to_even x \<noteq> 0"
proof (cases "0 \<le> x")
  case True
  then have "1 \<le> \<lfloor>x\<rfloor>"
    using assms by (simp add: le_floor_iff)
  then show ?thesis
    using round_to_even_cases [of x] by linarith
next
  case False
  then have x: "x \<le> - 1"
    using assms by simp
  then have f: "\<lfloor>x\<rfloor> \<le> - 1"
    by (simp add: floor_le_iff)
  show ?thesis
  proof (cases "\<lfloor>x\<rfloor> = - 1")
    case True
    then have "round_to_even x = - 1"
      using x by (simp add: round_to_even_def Let_def)
    then show ?thesis
      by simp
  next
    case False
    then have "\<lfloor>x\<rfloor> \<le> - 2"
      using f by linarith
    then show ?thesis
      using round_to_even_cases [of x] by linarith
  qed
qed

lemma binary64_zero: "binary64 0 = 0"
  by (simp add: binary64_def)

lemma binary64_eval:
  assumes "2 powr of_int k \<le> \<bar>x\<bar>" and "\<bar>x\<bar> < 2 powr (of_int k + 1)"
  shows "binary64 x
           = of_int (round_to_even (x / 2 powr of_int (k - 52))) * 2 powr of_int (k - 52)"
proof -
  have pos: "0 < \<bar>x\<bar>"
    using assms(1) powr_gt_zero [of 2 "of_int k"] by linarith
  then have "\<lfloor>log 2 \<bar>x\<bar>\<rfloor> = k"
    using assms by (simp add: floor_log_eq_powr_iff)
  moreover have "x \<noteq> 0"
    using pos by simp
  ultimately show ?thesis
    by (simp add: binary64_def Let_def)
qed

lemma binary64_nonzero:
  assumes "x \<noteq> 0"
  shows "binary64 x \<noteq> 0"
proof -
  define k where "k = \<lfloor>log 2 \<bar>x\<bar>\<rfloor>"
  have pos: "0 < \<bar>x\<bar>"
    using assms by simp
  have b: "2 powr of_int k \<le> \<bar>x\<bar>"
    using floor_log_eq_powr_iff [of "\<bar>x\<bar>" 2 k] pos by (simp add: k_def)
  have "(2::real) powr of_int k = 2 powr 52 * 2 powr of_int (k - 52)"
    by (simp add: powr_diff)
  then have "2 powr 52 * 2 powr of_int (k - 52) \<le> \<bar>x\<bar>"
    using b by simp
  then have "2 powr 52 \<le> \<bar>x\<bar> / 2 powr of_int (k - 52)"
    by (simp add: pos_le_divide_eq)
  moreover have "(1::real) \<le> 2 powr 52"
    by simp
  moreover have "\<bar>x / 2 powr of_int (k - 52)\<bar> = \<bar>x\<bar> / 2 powr of_int (k - 52)"
    by simp
  ultimately have "1 \<le> \<bar>x / 2 powr of_int (k - 52)\<bar>"
    by linarith
  then have "round_to_even (x / 2 powr of_int (k - 52)) \<noteq> 0"
    by (rule round_to_even_nonzero)
  then show ?thesis
    using assms by (simp add: binary64_def Let_def k_def)
qed

lemma binary64_one: "binary64 1 = 1"
  using binary64_eval [of 0 1] by (simp add: round_to_even_def powr_minus)

lemma binary64_2_70: "binary64 (2 ^ 70) = 2 ^ 70"
  using binary64_eval [of 70 "2 ^ 70"] by (simp add: round_to_even_def powr_minus)

lemma binary64_2_72: "binary64 (2 ^ 72) = 2 ^ 72"
  using binary64_eval [of 72 "2 ^ 72"] by (simp add: round_to_even_def powr_minus)


lemma binary64_49th: "binary64 (1 / 49) = 5882252574524729 / 2 ^ 58"
  using binary64_eval [of "- 6" "1 / 49"]
  by (simp add: round_to_even_def powr_minus Let_def)

lemma binary64_49th_times_49:
  "binary64 (5882252574524729 / 2 ^ 58 * 49) = 9007199254740991 / 2 ^ 53"
  using binary64_eval [of "- 1" "5882252574524729 / 2 ^ 58 * 49"]
  by (simp add: round_to_even_def powr_minus Let_def)

lemma inverse3_binary64_identity:
  "inverse3_binary64 [[1, 0, 0], [0, 1, 0], [0, 0, 1]] = [[1, 0, 0], [0, 1, 0], [0, 0, 1]]"
  by (simp add: inverse3_binary64_def determinant3_binary64_def cofactor_binary64_def
      element_def eval_nat_numeral Let_def binary64_zero binary64_one)


subsection \<open>The double nearest to \<open>pi\<close>\<close>

lemma arctan_series_bounds:
  fixes x :: real
  assumes "0 \<le> x" and "x \<le> 1"
  shows "(\<Sum>i<2 * n. (- 1) ^ i * (1 / real (i * 2 + 1) * x ^ (i * 2 + 1))) \<le> arctan x"
    and "arctan x \<le> (\<Sum>i<2 * n + 1. (- 1) ^ i * (1 / real (i * 2 + 1) * x ^ (i * 2 + 1)))"
proof -
  define a where "a i = 1 / real (i * 2 + 1) * x ^ (i * 2 + 1)" for i
  have abs: "\<bar>x\<bar> \<le> 1"
    using assms by simp
  have zero: "a \<longlonglongrightarrow> 0"
    unfolding a_def using zeroseq_arctan_series [OF abs] .
  have pos: "0 \<le> a i" for i
    using assms by (simp add: a_def)
  have mono: "a (Suc i) \<le> a i" for i
  proof -
    have "x ^ (Suc i * 2 + 1) \<le> x ^ (i * 2 + 1)"
      using assms by (intro power_decreasing) auto
    moreover have "1 / real (Suc i * 2 + 1) \<le> 1 / real (i * 2 + 1)"
      by (simp add: frac_le)
    ultimately show ?thesis
      unfolding a_def using assms by (intro mult_mono) auto
  qed
  have series: "arctan x = (\<Sum>i. (- 1) ^ i * a i)"
    unfolding a_def using arctan_series [OF abs] .
  show "(\<Sum>i<2 * n. (- 1) ^ i * (1 / real (i * 2 + 1) * x ^ (i * 2 + 1))) \<le> arctan x"
    using summable_Leibniz'(2) [OF zero pos mono, of n] by (simp add: series a_def)
  show "arctan x \<le> (\<Sum>i<2 * n + 1. (- 1) ^ i * (1 / real (i * 2 + 1) * x ^ (i * 2 + 1)))"
    using summable_Leibniz'(4) [OF zero pos mono, of n] by (simp add: series a_def)
qed

lemma pi_lower: "7074237752028440 / 2 ^ 51 < pi"
proof -
  have a: "(\<Sum>i<2 * 6. (- 1) ^ i * (1 / real (i * 2 + 1) * (1 / 5) ^ (i * 2 + 1)))
             \<le> arctan (1 / 5)"
    by (rule arctan_series_bounds) simp_all
  have b: "arctan (1 / 239)
             \<le> (\<Sum>i<2 * 1 + 1. (- 1) ^ i * (1 / real (i * 2 + 1) * (1 / 239) ^ (i * 2 + 1)))"
    by (rule arctan_series_bounds) simp_all
  have "pi = 16 * arctan (1 / 5) - 4 * arctan (1 / 239)"
    using machin by simp
  moreover have "7074237752028440 / 2 ^ 51
      < 16 * (\<Sum>i<2 * 6. (- 1) ^ i * (1 / real (i * 2 + 1) * (1 / 5) ^ (i * 2 + 1)))
        - 4 * (\<Sum>i<2 * 1 + 1. (- 1) ^ i * (1 / real (i * 2 + 1) * (1 / 239) ^ (i * 2 + 1)))"
    by (simp add: lessThan_nat_numeral lessThan_Suc power_divide)
  ultimately show ?thesis
    using a b by linarith
qed

lemma pi_upper: "pi < (7074237752028440 + 1 / 2) / 2 ^ 51"
proof -
  have a: "arctan (1 / 5)
             \<le> (\<Sum>i<2 * 6 + 1. (- 1) ^ i * (1 / real (i * 2 + 1) * (1 / 5) ^ (i * 2 + 1)))"
    by (rule arctan_series_bounds) simp_all
  have b: "(\<Sum>i<2 * 2. (- 1) ^ i * (1 / real (i * 2 + 1) * (1 / 239) ^ (i * 2 + 1)))
             \<le> arctan (1 / 239)"
    by (rule arctan_series_bounds) simp_all
  have "pi = 16 * arctan (1 / 5) - 4 * arctan (1 / 239)"
    using machin by simp
  moreover have
    "16 * (\<Sum>i<2 * 6 + 1. (- 1) ^ i * (1 / real (i * 2 + 1) * (1 / 5) ^ (i * 2 + 1)))
       - 4 * (\<Sum>i<2 * 2. (- 1) ^ i * (1 / real (i * 2 + 1) * (1 / 239) ^ (i * 2 + 1)))
     < (7074237752028440 + 1 / 2) / 2 ^ 51"
    by (simp add: lessThan_nat_numeral lessThan_Suc power_divide)
  ultimately show ?thesis
    using a b by linarith
qed

lemma round_to_even_pi: "round_to_even (pi * 2 ^ 51) = 7074237752028440"
proof -
  have lo: "7074237752028440 < pi * 2 ^ 51"
    using pi_lower by (simp add: pos_divide_less_eq)
  have hi: "pi * 2 ^ 51 < 7074237752028440 + 1 / 2"
    using pi_upper by (simp add: pos_less_divide_eq)
  have f: "\<lfloor>pi * 2 ^ 51\<rfloor> = 7074237752028440"
    using lo hi by (intro floor_unique) simp_all
  show ?thesis
    unfolding round_to_even_def Let_def f using hi by simp
qed

lemma binary64_pi: "binary64 pi = 884279719003555 / 2 ^ 48"
proof -
  have "2 powr of_int 1 \<le> \<bar>pi\<bar>" and "\<bar>pi\<bar> < 2 powr (of_int 1 + 1)"
    using pi_ge_two pi_less_4 by simp_all
  then have "binary64 pi
      = of_int (round_to_even (pi / 2 powr of_int (1 - 52))) * 2 powr of_int (1 - 52)"
    by (rule binary64_eval)
  moreover have "pi / 2 powr of_int (1 - 52) = pi * 2 ^ 51"
    by (simp add: powr_minus)
  ultimately have "binary64 pi = of_int 7074237752028440 * 2 powr of_int (1 - 52)"
    by (simp only: round_to_even_pi)
  then show ?thesis
    by (simp add: powr_minus)
qed

lemma binary64_pi_half: "binary64 (pi / 2) = 884279719003555 / 2 ^ 49"
proof -
  have "2 powr of_int 0 \<le> \<bar>pi / 2\<bar>" and "\<bar>pi / 2\<bar> < 2 powr (of_int 0 + 1)"
    using pi_ge_two pi_less_4 by simp_all
  then have "binary64 (pi / 2)
      = of_int (round_to_even (pi / 2 / 2 powr of_int (0 - 52))) * 2 powr of_int (0 - 52)"
    by (rule binary64_eval)
  moreover have "pi / 2 / 2 powr of_int (0 - 52) = pi * 2 ^ 51"
    by (simp add: powr_minus)
  ultimately have "binary64 (pi / 2) = of_int 7074237752028440 * 2 powr of_int (0 - 52)"
    by (simp only: round_to_even_pi)
  then show ?thesis
    by (simp add: powr_minus)
qed

lemma binary64_pi_below: "0 < binary64 pi" "binary64 pi < pi"
  using pi_lower by (simp_all add: binary64_pi)

subsection \<open>The \<open>phi\<close> row in double precision\<close>

lemma free_to_bound_jacobian_binary64_phi_row:
  "element (free_to_bound_jacobian_binary64 trf3 msk free_vec) e_bound_phi e_free_dir0
     = (let dir = track_helper_dir free_vec;
            theta = binary64 (getter_theta dir);
            phi = binary64 (getter_phi dir)
        in divide_binary64 (binary64 (- 1 * binary64 (sin phi))) (binary64 (sin theta)))"
  "element (free_to_bound_jacobian_binary64 trf3 msk free_vec) e_bound_phi e_free_dir1
     = (let dir = track_helper_dir free_vec;
            theta = binary64 (getter_theta dir);
            phi = binary64 (getter_phi dir)
        in divide_binary64 (binary64 (cos phi)) (binary64 (sin theta)))"
  by (simp_all add: free_to_bound_jacobian_binary64_def matrix_defs eval_nat_numeral Let_def)


subsection \<open>The inverse of the rotation part\<close>

lemma inverse3_left:
  assumes "determinant3 R \<noteq> 0"
  shows "matrix_vector3 (inverse3 R) (matrix_vector3 R [x, y, z]) = [x, y, z]"
proof -
  define a where "a = R ! 0 ! 0"
  define b where "b = R ! 0 ! 1"
  define c where "c = R ! 0 ! 2"
  define d where "d = R ! 1 ! 0"
  define e where "e = R ! 1 ! 1"
  define f where "f = R ! 1 ! 2"
  define g where "g = R ! 2 ! 0"
  define h where "h = R ! 2 ! 1"
  define i where "i = R ! 2 ! 2"
  define D where "D = a * (e * i - f * h) - b * (d * i - f * g) + c * (d * h - e * g)"
  note entries = a_def b_def c_def d_def e_def f_def g_def h_def i_def
  have D: "D \<noteq> 0" and DR: "determinant3 R = D"
    using assms by (simp_all add: determinant3_def element_def D_def entries)
  have r0: "(e * i - f * h) * (a * x + b * y + c * z) + (c * h - b * i) * (d * x + e * y + f * z)
            + (b * f - c * e) * (g * x + h * y + i * z) = D * x"
    unfolding D_def by algebra
  have r1: "(f * g - d * i) * (a * x + b * y + c * z) + (a * i - c * g) * (d * x + e * y + f * z)
            + (c * d - a * f) * (g * x + h * y + i * z) = D * y"
    unfolding D_def by algebra
  have r2: "(d * h - e * g) * (a * x + b * y + c * z) + (b * g - a * h) * (d * x + e * y + f * z)
            + (a * e - b * d) * (g * x + h * y + i * z) = D * z"
    unfolding D_def by algebra
  have q0: "(e * i - f * h) / D * (a * x + b * y + c * z)
            + (c * h - b * i) / D * (d * x + e * y + f * z)
            + (b * f - c * e) / D * (g * x + h * y + i * z) = x"
    using D r0 by (simp add: divide_simps)
  have q1: "(f * g - d * i) / D * (a * x + b * y + c * z)
            + (a * i - c * g) / D * (d * x + e * y + f * z)
            + (c * d - a * f) / D * (g * x + h * y + i * z) = y"
    using D r1 by (simp add: divide_simps)
  have q2: "(d * h - e * g) / D * (a * x + b * y + c * z)
            + (b * g - a * h) / D * (d * x + e * y + f * z)
            + (a * e - b * d) / D * (g * x + h * y + i * z) = z"
    using D r2 by (simp add: divide_simps)
  have "matrix_vector3 (inverse3 R) (matrix_vector3 R [x, y, z]) =
     [(e * i - f * h) / D * (a * x + b * y + c * z)
        + (c * h - b * i) / D * (d * x + e * y + f * z)
        + (b * f - c * e) / D * (g * x + h * y + i * z),
      (f * g - d * i) / D * (a * x + b * y + c * z)
        + (a * i - c * g) / D * (d * x + e * y + f * z)
        + (c * d - a * f) / D * (g * x + h * y + i * z),
      (d * h - e * g) / D * (a * x + b * y + c * z)
        + (b * g - a * h) / D * (d * x + e * y + f * z)
        + (a * e - b * d) / D * (g * x + h * y + i * z)]"
    unfolding inverse3_def DR Let_def
    by (simp add: matrix_vector3_def element_def eval_nat_numeral entries)
  then show ?thesis
    by (simp only: q0 q1 q2)
qed

lemma matrix_vector3_components:
  "[matrix_vector3 M v ! 0, matrix_vector3 M v ! Suc 0, matrix_vector3 M v ! 2]
     = matrix_vector3 M v"
  by (simp add: matrix_vector3_def eval_nat_numeral)

lemma point_to_local_point_to_global:
  assumes "determinant3 (rotation trf3) \<noteq> 0"
  shows "point_to_local trf3 (point_to_global trf3 [x, y, z]) = [x, y, z]"
  using inverse3_left [OF assms, of x y z]
  by (simp add: point_to_local_def point_to_global_def Let_def matrix_vector3_components)

lemma planar_round_trip:
  assumes "determinant3 (rotation trf3) \<noteq> 0"
  shows "global_to_local trf3 (local_to_global trf3 msk [p0, p1] d) d' = [p0, p1]"
  using point_to_local_point_to_global [OF assms, of p0 p1 0]
  by (simp add: global_to_local_def local_to_global_def cartesian2_of_point3_def)

lemma determinant3_identity: "determinant3 (rotation identity_transform3) = 1"
  by (simp add: determinant3_def identity_transform3_def element_def eval_nat_numeral)

subsection \<open>The two-argument arctangent on a circle\<close>

lemma cos_neg_upper:
  assumes "pi / 2 < x" and "x \<le> pi"
  shows "cos x < 0"
proof -
  have "0 < cos (x - pi)"
    using assms by (intro cos_gt_zero_pi) auto
  then show ?thesis by simp
qed

lemma cos_neg_lower:
  assumes "- pi < x" and "x < - (pi / 2)"
  shows "cos x < 0"
proof -
  have "0 < cos (x + pi)"
    using assms by (intro cos_gt_zero_pi) auto
  then show ?thesis by simp
qed

lemma sin_neg_lower:
  assumes "- pi < x" and "x < 0"
  shows "sin x < 0"
proof -
  have "0 < sin (- x)"
    using assms by (intro sin_gt_zero) auto
  then show ?thesis by simp
qed

lemma atan2_polar_principal:
  assumes r: "0 < r" and lo: "- pi < x" and hi: "x \<le> pi"
  shows "atan2 (r * sin x) (r * cos x) = x"
proof -
  have q: "r * sin x / (r * cos x) = tan x"
    using r by (simp add: tan_def)
  consider (a) "x < - (pi / 2)" | (b) "x = - (pi / 2)" | (c) "- (pi / 2) < x" "x < pi / 2"
    | (d) "x = pi / 2" | (e) "pi / 2 < x"
    by linarith
  then show ?thesis
  proof cases
    case a
    have c: "cos x < 0"
      using cos_neg_lower [OF lo a] .
    have s: "sin x < 0"
      using sin_neg_lower [of x] lo a pi_gt_zero by linarith
    have "arctan (tan (x + pi)) = x + pi"
      using lo a by (intro arctan_tan) auto
    then have t: "arctan (tan x) = x + pi"
      by simp
    have "r * cos x < 0" and "r * sin x < 0"
      using r c s by (simp_all add: mult_pos_neg)
    then show ?thesis
      using t unfolding atan2_def q by simp
  next
    case b
    have "atan2 (r * sin (- (pi / 2))) (r * cos (- (pi / 2))) = - (pi / 2)"
      using r by (simp add: atan2_def)
    then show ?thesis
      unfolding b .
  next
    case c
    have "0 < cos x"
      using c by (intro cos_gt_zero_pi) auto
    then have "0 < r * cos x"
      using r by simp
    then show ?thesis
      using arctan_tan [of x] c unfolding atan2_def q by simp
  next
    case d
    have "atan2 (r * sin (pi / 2)) (r * cos (pi / 2)) = pi / 2"
      using r by (simp add: atan2_def)
    then show ?thesis
      unfolding d .
  next
    case e
    have c: "cos x < 0"
      using cos_neg_upper [OF e hi] .
    have s: "0 \<le> sin x"
      using e hi pi_gt_zero by (intro sin_ge_zero) auto
    have "arctan (tan (x - pi)) = x - pi"
      using e hi by (intro arctan_tan) auto
    moreover have "tan (x - pi) = tan x"
      using tan_periodic_pi [of "x - pi"] by simp
    ultimately have t: "arctan (tan x) = x - pi"
      by simp
    have "r * cos x < 0" and "0 \<le> r * sin x"
      using r c s by (simp_all add: mult_pos_neg)
    then show ?thesis
      using t unfolding atan2_def q by simp
  qed
qed

lemma atan2_polar:
  assumes r: "0 < r"
  shows "- pi < atan2 (r * sin x) (r * cos x) \<and> atan2 (r * sin x) (r * cos x) \<le> pi
       \<and> sin (atan2 (r * sin x) (r * cos x)) = sin x
       \<and> cos (atan2 (r * sin x) (r * cos x)) = cos x"
proof -
  obtain y where y: "- pi < y" "y \<le> pi" "sin y = sin x" "cos y = cos x"
    using sincos_principal_value [of x] by blast
  have "atan2 (r * sin y) (r * cos y) = y"
    using atan2_polar_principal [OF r y(1,2)] .
  then have "atan2 (r * sin x) (r * cos x) = y"
    by (simp add: y)
  then show ?thesis
    using y by simp
qed

subsection \<open>The vector conversions on explicit vectors\<close>

lemma bound_to_free_vector_eval:
  "bound_to_free_vector trf3 msk [[loc0], [loc1], [phi], [theta], [time], [qoverp]] =
     (let pos = local_to_global trf3 msk [loc0, loc1]
                  [sin theta * cos phi, sin theta * sin phi, cos theta]
      in [[pos ! 0], [pos ! 1], [pos ! 2], [time],
          [sin theta * cos phi], [sin theta * sin phi], [cos theta], [qoverp]])"
  by (simp add: bound_to_free_vector_def track_helper_local_def track_helper_dir_bound_def
      matrix_defs eval_nat_numeral Let_def)

lemma local_to_global_components:
  "[local_to_global trf3 msk p d ! 0, local_to_global trf3 msk p d ! Suc 0,
    local_to_global trf3 msk p d ! 2] = local_to_global trf3 msk p d"
  by (simp add: local_to_global_def point_to_global_def Let_def)

lemma free_to_bound_vector_eval:
  "free_to_bound_vector trf3 [[x], [y], [z], [time], [d0], [d1], [d2], [qoverp]] =
     (let local = global_to_local trf3 [x, y, z] [d0, d1, d2]
      in [[local ! 0], [local ! 1], [getter_phi [d0, d1, d2]], [getter_theta [d0, d1, d2]],
          [time], [qoverp]])"
  by (simp add: free_to_bound_vector_def track_helper_pos_def track_helper_dir_def
      matrix_defs eval_nat_numeral Let_def)

section \<open>Properties of the coordinate frames\<close>

text \<open>
  Claim C1. For every transform, shape descriptor and bound vector, the planar
  \<open>bound_to_free_jacobian\<close> is the \<open>8 x 6\<close> matrix whose position block (rows
  \<open>pos0 .. pos2\<close>, columns \<open>loc0, loc1\<close>) is the frame's
  \<open>bound_pos_to_free_pos_derivative\<close>, that is columns 0 and 1 of the rotation; whose
  (time, time) entry is 1; whose direction block holds the derivatives of
  \<open>(sin theta cos phi, sin theta sin phi, cos theta)\<close> by \<open>phi\<close> and \<open>theta\<close>, with
  \<open>theta\<close> and \<open>phi\<close> read from the bound vector; whose (qOverP, qOverP) entry is 1;
  and whose other entries are all zero.
\<close>

theorem bound_to_free_jacobian_entries:
  "bound_to_free_jacobian trf3 msk bound_vec =
     (let D = bound_pos_to_free_pos_derivative trf3 msk
                (track_helper_pos bound_vec) (track_helper_dir_bound bound_vec);
          theta = element bound_vec e_bound_theta 0;
          phi = element bound_vec e_bound_phi 0
      in [[element D 0 0, element D 0 1, 0, 0, 0, 0],
          [element D 1 0, element D 1 1, 0, 0, 0, 0],
          [element D 2 0, element D 2 1, 0, 0, 0, 0],
          [0, 0, 0, 0, 1, 0],
          [0, 0, - sin theta * sin phi, cos theta * cos phi, 0, 0],
          [0, 0, sin theta * cos phi, cos theta * sin phi, 0, 0],
          [0, 0, 0, - sin theta, 0, 0],
          [0, 0, 0, 0, 0, 1]])
   \<and> bound_pos_to_free_pos_derivative trf3 msk
        (track_helper_pos bound_vec) (track_helper_dir_bound bound_vec)
     = [[element (rotation trf3) 0 0, element (rotation trf3) 0 1],
        [element (rotation trf3) 1 0, element (rotation trf3) 1 1],
        [element (rotation trf3) 2 0, element (rotation trf3) 2 1]]"
  by (simp add: bound_to_free_jacobian_def bound_pos_to_free_pos_derivative_def
      reference_frame_def matrix_defs eval_nat_numeral Let_def)

text \<open>
  Claim C2. For every transform, shape descriptor and free vector whose direction has a
  polar angle \<open>theta\<close> with \<open>sin theta \<noteq> 0\<close>, the planar \<open>free_to_bound_jacobian\<close>
  returns the \<open>6 x 8\<close> matrix whose position block (rows \<open>loc0, loc1\<close>, columns
  \<open>pos0 .. pos2\<close>) is the frame's \<open>free_pos_to_bound_pos_derivative\<close>; whose (time, time)
  entry is 1; whose \<open>phi\<close> row is \<open>(- sin phi / sin theta, cos phi / sin theta, 0)\<close> and
  whose \<open>theta\<close> row is \<open>(cos phi cos theta, sin phi cos theta, - sin theta)\<close> in the
  direction columns, with \<open>phi\<close> and \<open>theta\<close> computed from the direction; whose
  (qOverP, qOverP) entry is 1; and whose other entries are all zero.
\<close>

theorem free_to_bound_jacobian_entries:
  assumes "sin (getter_theta (track_helper_dir free_vec)) \<noteq> 0"
  shows "free_to_bound_jacobian trf3 msk free_vec = Inr
     (let D = free_pos_to_bound_pos_derivative trf3 msk
                (track_helper_pos free_vec) (track_helper_dir free_vec);
          theta = getter_theta (track_helper_dir free_vec);
          phi = getter_phi (track_helper_dir free_vec)
      in [[element D 0 0, element D 0 1, element D 0 2, 0, 0, 0, 0, 0],
          [element D 1 0, element D 1 1, element D 1 2, 0, 0, 0, 0, 0],
          [0, 0, 0, 0, - sin phi / sin theta, cos phi / sin theta, 0, 0],
          [0, 0, 0, 0, cos phi * cos theta, sin phi * cos theta, - sin theta, 0],
          [0, 0, 0, 1, 0, 0, 0, 0],
          [0, 0, 0, 0, 0, 0, 0, 1]])"
  using assms
  by (simp add: free_to_bound_jacobian_def free_pos_to_bound_pos_derivative_def
      divide_scalar_def reference_frame_def matrix_defs eval_nat_numeral Let_def)

theorem free_to_bound_jacobian_entries_witness:
  "sin (getter_theta (track_helper_dir [[0], [0], [0], [0], [0], [1], [0], [0]])) \<noteq> 0
   \<and> free_to_bound_jacobian identity_transform3 () [[0], [0], [0], [0], [0], [1], [0], [0]]
     = Inr [[1, 0, 0, 0, 0, 0, 0, 0],
            [0, 1, 0, 0, 0, 0, 0, 0],
            [0, 0, 0, 0, - 1, 0, 0, 0],
            [0, 0, 0, 0, 0, 0, - 1, 0],
            [0, 0, 0, 1, 0, 0, 0, 0],
            [0, 0, 0, 0, 0, 0, 0, 1]]"
proof -
  have dir: "track_helper_dir [[0], [0], [0], [0], [0], [1], [0], [0]] = [0, 1, 0]"
    by (simp add: track_helper_dir_def element_def eval_nat_numeral)
  have th: "getter_theta [0, 1, 0] = pi / 2" and ph: "getter_phi [0, 1, 0] = pi / 2"
    by (simp_all add: getter_theta_def getter_phi_def atan2_def)
  have h: "sin (getter_theta (track_helper_dir [[0], [0], [0], [0], [0], [1], [0], [0]])) \<noteq> 0"
    by (simp add: dir th)
  show ?thesis
    using h free_to_bound_jacobian_entries [OF h, of identity_transform3 "()"]
    by (simp add: dir th ph free_pos_to_bound_pos_derivative_def reference_frame_def
        identity_transform3_def matrix_defs eval_nat_numeral Let_def)
qed

text \<open>
  Claim C3. For every transform, shape descriptor and free vector with \<open>dz \<noteq> 0\<close>, where
  \<open>n\<close> is column 2 of the planar \<open>reference_frame\<close> at the vector's position and
  direction and \<open>dz\<close> is the dot product of \<open>n\<close> and the direction,
  \<open>free_to_path_correction\<close> returns the \<open>1 x 8\<close> row whose position entries are
  \<open>(- 1 / dz)\<close> times \<open>n\<close> transposed and whose five other entries are zero.
\<close>

theorem free_to_path_correction_entries:
  assumes "vector_dot (block 3 1 (reference_frame trf3 msk (track_helper_pos free_vec)
                                   (track_helper_dir free_vec)) 0 2)
             (track_helper_dir free_vec) \<noteq> 0"
  shows "free_to_path_correction trf3 msk free_vec = Inr
     (let frame = reference_frame trf3 msk (track_helper_pos free_vec)
                    (track_helper_dir free_vec);
          n = block 3 1 frame 0 2;
          dz = vector_dot n (track_helper_dir free_vec)
      in [[(- 1 / dz) * element n 0 0, (- 1 / dz) * element n 1 0, (- 1 / dz) * element n 2 0,
           0, 0, 0, 0, 0]])"
  using assms
  by (simp add: free_to_path_correction_def divide_scalar_def
      reference_frame_def matrix_defs eval_nat_numeral Let_def)

theorem free_to_path_correction_entries_witness:
  "vector_dot (block 3 1 (reference_frame identity_transform3 ()
                           (track_helper_pos [[1], [2], [0], [5], [0], [3 / 5], [4 / 5], [0]])
                           (track_helper_dir [[1], [2], [0], [5], [0], [3 / 5], [4 / 5], [0]]))
                 0 2)
     (track_helper_dir [[1], [2], [0], [5], [0], [3 / 5], [4 / 5], [0]]) \<noteq> 0
   \<and> free_to_path_correction identity_transform3 ()
        [[1], [2], [0], [5], [0], [3 / 5], [4 / 5], [0]]
     = Inr [[0, 0, - (5 / 4), 0, 0, 0, 0, 0]]"
proof -
  have h: "vector_dot (block 3 1 (reference_frame identity_transform3 ()
                           (track_helper_pos [[1], [2], [0], [5], [0], [3 / 5], [4 / 5], [0]])
                           (track_helper_dir [[1], [2], [0], [5], [0], [3 / 5], [4 / 5], [0]]))
                         0 2)
             (track_helper_dir [[1], [2], [0], [5], [0], [3 / 5], [4 / 5], [0]]) \<noteq> 0"
    by (simp add: vector_dot_def reference_frame_def identity_transform3_def
        track_helper_dir_def matrix_defs eval_nat_numeral)
  show ?thesis
    using h free_to_path_correction_entries [OF h]
    by (simp add: vector_dot_def reference_frame_def identity_transform3_def
        track_helper_dir_def matrix_defs eval_nat_numeral Let_def)
qed

text \<open>
  Claim C4, amended. For the planar frame, for every surface transform (an invertible
  affine map: the determinant of its rotation part is not zero), every shape descriptor,
  every local point \<open>(p0, p1)\<close> and every direction \<open>d\<close>, mapping the point to the
  global frame with \<open>local_to_global\<close> and back with \<open>global_to_local\<close> gives the point
  again, exactly, in exact arithmetic. In double precision the deviation has no bound that
  holds for every transform: it grows with the size of the translation.
\<close>

theorem global_to_local_local_to_global:
  assumes "determinant3 (rotation trf3) \<noteq> 0"
  shows "global_to_local trf3 (local_to_global trf3 msk [p0, p1] d) d = [p0, p1]"
  using assms by (rule planar_round_trip)

theorem global_to_local_local_to_global_witness:
  "determinant3 (rotation \<lparr>rotation = [[0, - 1, 0], [1, 0, 0], [0, 0, 1]],
                            translation = [1, 2, 3]\<rparr>) \<noteq> 0
   \<and> local_to_global \<lparr>rotation = [[0, - 1, 0], [1, 0, 0], [0, 0, 1]],
                        translation = [1, 2, 3]\<rparr> () [4, 5] [0, 0, 1] = [- 4, 6, 3]
   \<and> global_to_local \<lparr>rotation = [[0, - 1, 0], [1, 0, 0], [0, 0, 1]],
                        translation = [1, 2, 3]\<rparr> [- 4, 6, 3] [0, 0, 1] = [4, 5]"
proof -
  have h: "determinant3 (rotation \<lparr>rotation = [[0, - 1, 0], [1, 0, 0], [0, 0, 1]],
                                    translation = [1, 2, 3]\<rparr>) \<noteq> 0"
    by (simp add: determinant3_def element_def eval_nat_numeral)
  have g: "local_to_global \<lparr>rotation = [[0, - 1, 0], [1, 0, 0], [0, 0, 1]],
                             translation = [1, 2, 3]\<rparr> () [4, 5] [0, 0, 1] = [- 4, 6, 3]"
    by (simp add: local_to_global_def point_to_global_def matrix_vector3_def element_def
        eval_nat_numeral Let_def)
  show ?thesis
    using h g global_to_local_local_to_global [OF h, of "()" 4 5 "[0, 0, 1]"]
    by simp
qed

text \<open>
  Counterexample to claim C4 as stated (a deviation of at most \<open>1e-9\<close> in double
  precision for every transform): with the identity rotation, the translation
  \<open>(1e8, 0, 0)\<close> and the local point \<open>(0.1, 0)\<close>, the global point is
  \<open>1e8 + 6710886 / 2 ^ 26\<close> and the round trip returns \<open>6710886 / 2 ^ 26\<close>, that is
  \<open>0.09999999403953552\<close>; it differs from the double \<open>0.1\<close> by more than \<open>5.9e-9\<close>.
\<close>

theorem round_trip_binary64_counterexample:
  "global_to_local_binary64
     \<lparr>rotation = [[1, 0, 0], [0, 1, 0], [0, 0, 1]], translation = [10 ^ 8, 0, 0]\<rparr>
     (local_to_global_binary64
        \<lparr>rotation = [[1, 0, 0], [0, 1, 0], [0, 0, 1]], translation = [10 ^ 8, 0, 0]\<rparr> ()
        [binary64 (1 / 10), 0] [0, 0, 1])
     [0, 0, 1] = [6710886 / 2 ^ 26, 0]
   \<and> 1 / 10 ^ 9 < \<bar>6710886 / 2 ^ 26 - binary64 (1 / 10)\<bar>"
proof -
  define a :: real where "a = 3602879701896397 / 2 ^ 55"
  define g :: real where "g = 10 ^ 8 + 6710886 / 2 ^ 26"
  define h :: real where "h = 6710886 / 2 ^ 26"
  have r1: "binary64 (1 / 10) = a"
    unfolding a_def using binary64_eval [of "- 4" "1 / 10"]
    by (simp add: round_to_even_def powr_minus Let_def)
  have r2: "binary64 a = a"
    unfolding a_def using binary64_eval [of "- 4" "3602879701896397 / 2 ^ 55"]
    by (simp add: round_to_even_def powr_minus Let_def)
  have r3: "binary64 (a + 100000000) = g"
    unfolding a_def g_def using binary64_eval [of 26 "3602879701896397 / 2 ^ 55 + 100000000"]
    by (simp add: round_to_even_def powr_minus Let_def)
  have r4: "binary64 (g - 100000000) = h"
    unfolding g_def h_def using binary64_eval [of "- 4" "6710886 / 2 ^ 26"]
    by (simp add: round_to_even_def powr_minus Let_def)
  have r5: "binary64 h = h"
    unfolding h_def using binary64_eval [of "- 4" "6710886 / 2 ^ 26"]
    by (simp add: round_to_even_def powr_minus Let_def)
  have G: "local_to_global_binary64
     \<lparr>rotation = [[1, 0, 0], [0, 1, 0], [0, 0, 1]], translation = [10 ^ 8, 0, 0]\<rparr> ()
     [binary64 (1 / 10), 0] [0, 0, 1] = [g, 0, 0]"
    by (simp add: local_to_global_binary64_def point_to_global_binary64_def
        matrix_vector3_binary64_def element_def eval_nat_numeral Let_def
        binary64_zero binary64_one r1 r2 r3)
  have L: "global_to_local_binary64
       \<lparr>rotation = [[1, 0, 0], [0, 1, 0], [0, 0, 1]], translation = [10 ^ 8, 0, 0]\<rparr>
       [g, 0, 0] [0, 0, 1] = [h, 0]"
    by (simp add: global_to_local_binary64_def point_to_local_binary64_def
        inverse3_binary64_identity cartesian2_of_point3_def
        matrix_vector3_binary64_def element_def eval_nat_numeral Let_def
        binary64_zero binary64_one r4 r5)
  have D: "1 / 10 ^ 9 < \<bar>h - binary64 (1 / 10)\<bar>"
    unfolding r1 by (simp add: a_def h_def)
  show ?thesis
    unfolding G L using D by (simp add: h_def)
qed

text \<open>
  Claim C5. For every invertible transform, shape descriptor and bound vector
  \<open>(loc0, loc1, phi, theta, time, qOverP)\<close> with \<open>theta\<close> strictly between \<open>0\<close> and
  \<open>pi\<close>, converting to a free vector and back reproduces \<open>loc0\<close>, \<open>loc1\<close>, \<open>theta\<close>,
  \<open>time\<close> and \<open>qOverP\<close>, and gives an angle \<open>phi'\<close> in \<open>(-pi, pi]\<close> with the sine and
  cosine of \<open>phi\<close>: it is \<open>phi\<close> itself when \<open>phi\<close> lies in \<open>(-pi, pi]\<close>, and \<open>pi\<close> when
  \<open>phi = -pi\<close> (the two ends of the branch cut are identified).
\<close>

theorem free_bound_vector_round_trip:
  assumes det: "determinant3 (rotation trf3) \<noteq> 0" and th: "0 < theta" "theta < pi"
  shows "\<exists>phi'. free_to_bound_vector trf3
                  (bound_to_free_vector trf3 msk
                     [[loc0], [loc1], [phi], [theta], [time], [qoverp]])
                = [[loc0], [loc1], [phi'], [theta], [time], [qoverp]]
              \<and> - pi < phi' \<and> phi' \<le> pi \<and> sin phi' = sin phi \<and> cos phi' = cos phi
              \<and> (- pi < phi \<and> phi \<le> pi \<longrightarrow> phi' = phi)
              \<and> (phi = - pi \<longrightarrow> phi' = pi)"
proof -
  define dir where "dir = [sin theta * cos phi, sin theta * sin phi, cos theta]"
  define phi' where "phi' = atan2 (sin theta * sin phi) (sin theta * cos phi)"
  have s: "0 < sin theta"
    using th by (rule sin_gt_zero)
  have loc: "global_to_local trf3 (local_to_global trf3 msk [loc0, loc1] dir) dir = [loc0, loc1]"
    using planar_round_trip [OF det] .
  have theta: "getter_theta dir = theta"
    using th by (simp add: getter_theta_def dir_def arccos_cos)
  have phi: "getter_phi dir = phi'"
    by (simp add: getter_phi_def dir_def phi'_def)
  have "free_to_bound_vector trf3
          (bound_to_free_vector trf3 msk [[loc0], [loc1], [phi], [theta], [time], [qoverp]])
        = [[loc0], [loc1], [phi'], [theta], [time], [qoverp]]"
    unfolding bound_to_free_vector_eval Let_def free_to_bound_vector_eval
    using loc theta phi
    by (simp add: dir_def local_to_global_components)
  moreover have "- pi < phi' \<and> phi' \<le> pi \<and> sin phi' = sin phi \<and> cos phi' = cos phi"
    unfolding phi'_def using atan2_polar [OF s, of phi] by simp
  moreover have "phi' = phi" if "- pi < phi \<and> phi \<le> pi"
    unfolding phi'_def using atan2_polar_principal [OF s, of phi] that by simp
  moreover have "phi' = pi" if "phi = - pi"
    unfolding phi'_def that using s by (simp add: atan2_def)
  ultimately show ?thesis
    by blast
qed

theorem free_bound_vector_round_trip_witness:
  "determinant3 (rotation identity_transform3) \<noteq> 0 \<and> 0 < pi / 2 \<and> pi / 2 < pi
   \<and> - pi < pi / 4 \<and> pi / 4 \<le> pi
   \<and> free_to_bound_vector identity_transform3
        (bound_to_free_vector identity_transform3 ()
           [[1], [2], [pi / 4], [pi / 2], [5], [1 / 100]])
      = [[1], [2], [pi / 4], [pi / 2], [5], [1 / 100]]
   \<and> free_to_bound_vector identity_transform3
        (bound_to_free_vector identity_transform3 ()
           [[1], [2], [- pi], [pi / 2], [5], [1 / 100]])
      = [[1], [2], [pi], [pi / 2], [5], [1 / 100]]"
proof -
  have h: "determinant3 (rotation identity_transform3) \<noteq> 0"
    by (simp add: determinant3_identity)
  have t: "0 < pi / 2" "pi / 2 < pi"
    by simp_all
  show ?thesis
    using h free_bound_vector_round_trip [OF h t, of "()" 1 2 "pi / 4" 5 "1 / 100"]
            free_bound_vector_round_trip [OF h t, of "()" 1 2 "- pi" 5 "1 / 100"]
    by auto
qed

text \<open>
  Claim C6. For the planar frame, for every transform, shape descriptor, position and
  direction, \<open>free_pos_to_bound_pos_derivative\<close> is exactly the transpose of
  \<open>bound_pos_to_free_pos_derivative\<close>.
\<close>

theorem derivative_blocks_transposed:
  "free_pos_to_bound_pos_derivative trf3 msk pos dir
     = transpose_matrix 3 2 (bound_pos_to_free_pos_derivative trf3 msk pos dir)"
  by (simp add: free_pos_to_bound_pos_derivative_def bound_pos_to_free_pos_derivative_def
      reference_frame_def matrix_defs eval_nat_numeral Let_def)

text \<open>
  Claim C7, amended. In double precision, when the computed polar angle \<open>theta\<close> of the
  direction lies strictly between \<open>0\<close> and \<open>pi\<close>, the divisor \<open>sin theta\<close> of both
  divisions of \<open>free_to_bound_jacobian\<close> is not zero and both entries of the \<open>phi\<close> row are
  the rounded quotients. When \<open>theta\<close> is \<open>0\<close> (a direction along the positive polar
  axis), the divisor is zero and each of the two entries is the outcome of its own division
  by zero: neither is clamped or replaced by a finite value.
\<close>

theorem free_to_bound_jacobian_binary64_division:
  "(let dir = track_helper_dir free_vec;
        theta = binary64 (getter_theta dir);
        phi = binary64 (getter_phi dir);
        sin_theta = binary64 (sin theta);
        J = free_to_bound_jacobian_binary64 trf3 msk free_vec
    in (0 < theta \<and> theta < pi \<longrightarrow>
          sin_theta \<noteq> 0
          \<and> element J e_bound_phi e_free_dir0
              = Inr (binary64 (binary64 (- 1 * binary64 (sin phi)) / sin_theta))
          \<and> element J e_bound_phi e_free_dir1
              = Inr (binary64 (binary64 (cos phi) / sin_theta)))
     \<and> (theta = 0 \<longrightarrow>
          sin_theta = 0
          \<and> element J e_bound_phi e_free_dir0 = Inl DivisionByZero
          \<and> element J e_bound_phi e_free_dir1 = Inl DivisionByZero))"
proof -
  define theta where "theta = binary64 (getter_theta (track_helper_dir free_vec))"
  have a: "binary64 (sin theta) \<noteq> 0" if "0 < theta" "theta < pi"
  proof -
    have "0 < sin theta"
      using that by (rule sin_gt_zero)
    then show ?thesis
      by (intro binary64_nonzero) simp
  qed
  have b: "binary64 (sin theta) = 0" if "theta = 0"
    using that by (simp add: binary64_zero)
  show ?thesis
    using a b unfolding free_to_bound_jacobian_binary64_phi_row Let_def theta_def
    by (auto simp: divide_binary64_def)
qed


theorem free_to_bound_jacobian_binary64_division_witness:
  "(let dir = track_helper_dir [[0], [0], [0], [0], [0], [1], [0], [0]];
        theta = binary64 (getter_theta dir);
        phi = binary64 (getter_phi dir);
        sin_theta = binary64 (sin theta);
        J = free_to_bound_jacobian_binary64 identity_transform3 ()
              [[0], [0], [0], [0], [0], [1], [0], [0]]
    in 0 < theta \<and> theta < pi \<and> sin_theta \<noteq> 0
       \<and> element J e_bound_phi e_free_dir0
           = Inr (binary64 (binary64 (- 1 * binary64 (sin phi)) / sin_theta))
       \<and> element J e_bound_phi e_free_dir1
           = Inr (binary64 (binary64 (cos phi) / sin_theta)))
   \<and> (let dir = track_helper_dir [[0], [0], [0], [0], [0], [0], [1], [0]];
          theta = binary64 (getter_theta dir);
          sin_theta = binary64 (sin theta);
          J = free_to_bound_jacobian_binary64 identity_transform3 ()
                [[0], [0], [0], [0], [0], [0], [1], [0]]
      in theta = 0 \<and> sin_theta = 0
         \<and> element J e_bound_phi e_free_dir0 = Inl DivisionByZero
         \<and> element J e_bound_phi e_free_dir1 = Inl DivisionByZero)"
proof -
  have d1: "track_helper_dir [[0], [0], [0], [0], [0], [1], [0], [0]] = [0, 1, 0]"
    and d0: "track_helper_dir [[0], [0], [0], [0], [0], [0], [1], [0]] = [0, 0, 1]"
    by (simp_all add: track_helper_dir_def element_def eval_nat_numeral)
  have "getter_theta [0, 1, 0] = pi / 2"
    by (simp add: getter_theta_def)
  then have t1: "binary64 (getter_theta [0, 1, 0]) = 884279719003555 / 2 ^ 49"
    by (simp only: binary64_pi_half)
  have h1: "0 < binary64 (getter_theta [0, 1, 0]) \<and> binary64 (getter_theta [0, 1, 0]) < pi"
    unfolding t1 using pi_lower by simp
  have h0: "binary64 (getter_theta [0, 0, 1]) = 0"
    by (simp add: getter_theta_def binary64_zero)
  show ?thesis
    using h1 h0
      free_to_bound_jacobian_binary64_division
        [of "[[0], [0], [0], [0], [0], [1], [0], [0]]" identity_transform3 "()"]
      free_to_bound_jacobian_binary64_division
        [of "[[0], [0], [0], [0], [0], [0], [1], [0]]" identity_transform3 "()"]
    unfolding Let_def d1 d0 by blast
qed

text \<open>
  Counterexample to claim C7 as stated (at \<open>theta = pi\<close> the \<open>phi\<close> row is computed by
  dividing by \<open>sin theta = 0\<close>): for the direction \<open>(0, 0, -1)\<close>, whose polar angle is \<open>pi\<close>,
  the computed angle is the double nearest to \<open>pi\<close>, which is less than \<open>pi\<close>; its sine is
  not zero, and both entries of the \<open>phi\<close> row are finite quotients.
\<close>

theorem free_to_bound_jacobian_binary64_pole:
  "binary64 (getter_theta (track_helper_dir [[0], [0], [0], [0], [0], [0], [- 1], [0]]))
     = 884279719003555 / 2 ^ 48
   \<and> binary64 (sin (884279719003555 / 2 ^ 48)) \<noteq> 0
   \<and> element (free_to_bound_jacobian_binary64 identity_transform3 ()
                 [[0], [0], [0], [0], [0], [0], [- 1], [0]]) e_bound_phi e_free_dir0
       = Inr 0
   \<and> element (free_to_bound_jacobian_binary64 identity_transform3 ()
                 [[0], [0], [0], [0], [0], [0], [- 1], [0]]) e_bound_phi e_free_dir1
       = Inr (binary64 (1 / binary64 (sin (884279719003555 / 2 ^ 48))))"
proof -
  have dir: "track_helper_dir [[0], [0], [0], [0], [0], [0], [- 1], [0]] = [0, 0, - 1]"
    by (simp add: track_helper_dir_def element_def eval_nat_numeral)
  have th: "binary64 (getter_theta [0, 0, - 1]) = 884279719003555 / 2 ^ 48"
    by (simp only: getter_theta_def nth_Cons_numeral nth_Cons_0 arccos_minus_1 binary64_pi)
      (simp add: binary64_pi)
  have ph: "binary64 (getter_phi [0, 0, - 1]) = 0"
    by (simp add: getter_phi_def atan2_def binary64_zero)
  have "0 < sin (binary64 pi)"
    using binary64_pi_below by (rule sin_gt_zero)
  then have s: "binary64 (sin (884279719003555 / 2 ^ 48)) \<noteq> 0"
    unfolding binary64_pi by (intro binary64_nonzero) simp
  show ?thesis
    unfolding free_to_bound_jacobian_binary64_phi_row Let_def dir th ph
    using s by (simp add: divide_binary64_def binary64_zero binary64_one)
qed

text \<open>
  Claim C8. With the identity transform and the bound vector
  \<open>(loc0 = 1.0, loc1 = 2.0, phi = 0.3, theta = 1.2, time = 5.0, qOverP = 0.01)\<close>, the planar
  \<open>bound_to_free_vector\<close> returns position \<open>(1.0, 2.0, 0.0)\<close>, time \<open>5.0\<close>, direction
  \<open>(sin 1.2 cos 0.3, sin 1.2 sin 0.3, cos 1.2)\<close> and qOverP \<open>0.01\<close>.
\<close>

theorem bound_to_free_vector_scenario:
  "bound_to_free_vector identity_transform3 msk [[1.0], [2.0], [0.3], [1.2], [5.0], [0.01]]
     = [[1.0], [2.0], [0.0], [5.0],
        [sin 1.2 * cos 0.3], [sin 1.2 * sin 0.3], [cos 1.2], [0.01]]"
  by (simp add: bound_to_free_vector_eval local_to_global_def point_to_global_def
      matrix_vector3_def identity_transform3_def element_def eval_nat_numeral Let_def)

section \<open>Properties of the grid axes\<close>

text \<open>
  Claim C9. For every value \<open>v\<close> and every neighbourhood size \<open>nhood\<close>, whatever the bounds
  of the circular axis and its number of bins, \<open>range\<close> returns the pair \<open>{0, 0}\<close> and
  \<open>zone\<close> returns the empty sequence.
\<close>

theorem circular_range_zone_constant:
  "circular_range kDIM ax v nhood = (0, 0) \<and> circular_zone kDIM ax v nhood = []"
  by (simp add: circular_range_def circular_zone_def)

text \<open>
  Claim C10. On a closed axis with \<open>kDIM > 0\<close> bins and \<open>_min < _max\<close>, \<open>bin v\<close> is a valid
  bin index for every \<open>v\<close>, the raw index being replaced by \<open>0\<close> when negative and by
  \<open>kDIM - 1\<close> when it is \<open>kDIM\<close> or more. The code at \<open>v = 2 ^ 70\<close> on the axis
  \<open>closed<4>{0, 1}\<close>: the quotient is \<open>2 ^ 72\<close>, far above \<open>kDIM\<close>, its conversion to
  \<open>optional_index\<close> overflows, and \<open>bin\<close> returns \<open>0\<close>, not \<open>kDIM - 1 = 3\<close>.
\<close>

theorem closed_bin_overflow:
  "divide_binary64 (binary64 (2 ^ 70 - closed_min \<lparr>closed_min = 0, closed_max = 1\<rparr>))
     (binary64 (closed_max \<lparr>closed_min = 0, closed_max = 1\<rparr>
                - closed_min \<lparr>closed_min = 0, closed_max = 1\<rparr>)) = Inr (2 ^ 70)
   \<and> binary64 (2 ^ 70 * real 4) = 2 ^ 72
   \<and> closed_bin 4 \<lparr>closed_min = 0, closed_max = 1\<rparr> (2 ^ 70) = 0"
proof -
  have q: "divide_binary64 (2 ^ 70) 1 = Inr (2 ^ 70)"
    using binary64_2_70 by (simp add: divide_binary64_def)
  have m: "binary64 (2 ^ 70 * 4) = 2 ^ 72"
    using binary64_2_72 by simp
  show ?thesis
    using q m binary64_2_70 binary64_2_72
    by (simp add: closed_bin_def static_cast_optional_index_def binary64_one Let_def)
qed

text \<open>
  The rounding of the quotient is that of the program: on \<open>closed<49>{0, 49}\<close> the value
  \<open>1\<close> falls into bin \<open>0\<close>, since \<open>1 / 49 * 49\<close> rounds to a number below \<open>1\<close>.
\<close>

lemma closed_bin_rounding:
  "closed_bin 49 \<lparr>closed_min = 0, closed_max = 49\<rparr> 1 = 0"
proof -
  have b49: "binary64 49 = 49"
    using binary64_eval [of 5 49] by (simp add: round_to_even_def powr_minus Let_def)
  have "divide_binary64 1 49 = Inr (5882252574524729 / 2 ^ 58)"
    using binary64_49th by (simp add: divide_binary64_def)
  moreover have "\<lfloor>9007199254740991 / 2 ^ 53 :: real\<rfloor> = 0"
    by simp
  ultimately show ?thesis
    using binary64_49th_times_49
    by (simp add: closed_bin_def static_cast_optional_index_def binary64_one b49 Let_def)
qed

end
